theory Spec2Isabelle
  imports Complex_Main
begin

section \<open>JavaScript strings and numbers\<close>

text \<open>
  A JavaScript string is a sequence of UTF-16 code units; it is modelled as a list of
  natural numbers, so that every input the front end can receive is a value of the model
  (also the non-ASCII messages of the source and the Unicode white space that
  \<^verbatim>\<open>String.prototype.trim\<close> removes). \<open>str\<close> turns an ASCII literal into
  such a string.
\<close>

type_synonym js_string = "nat list"

definition str :: "string \<Rightarrow> js_string" where
  "str s = map of_char s"

text \<open>White space and line terminators, as \<^verbatim>\<open>trim\<close> and \<^verbatim>\<open>parseFloat\<close> skip them.\<close>

definition is_ws :: "nat \<Rightarrow> bool" where
  "is_ws c \<longleftrightarrow>
     c = 0x09 \<or> c = 0x0A \<or> c = 0x0B \<or> c = 0x0C \<or> c = 0x0D \<or> c = 0x20 \<or> c = 0xA0
     \<or> c = 0x1680 \<or> (0x2000 \<le> c \<and> c \<le> 0x200A) \<or> c = 0x2028 \<or> c = 0x2029
     \<or> c = 0x202F \<or> c = 0x205F \<or> c = 0x3000 \<or> c = 0xFEFF"

definition trim :: "js_string \<Rightarrow> js_string" where
  "trim s = rev (dropWhile is_ws (rev (dropWhile is_ws s)))"

text \<open>\<^verbatim>\<open>input.split(',')\<close>: the pieces between the commas (code unit 0x2C), at least one.\<close>

fun split_from :: "js_string \<Rightarrow> js_string \<Rightarrow> js_string list" where
  "split_from cur [] = [rev cur]"
| "split_from cur (c # cs) =
     (if c = 0x2C then rev cur # split_from [] cs else split_from (c # cur) cs)"

definition split_comma :: "js_string \<Rightarrow> js_string list" where
  "split_comma s = split_from [] s"

text \<open>\<^verbatim>\<open>s.replace('j', '')\<close>: the first occurrence of the code unit is removed.\<close>

fun remove_first :: "nat \<Rightarrow> js_string \<Rightarrow> js_string" where
  "remove_first x [] = []"
| "remove_first x (c # cs) = (if c = x then cs else c # remove_first x cs)"

definition ends_with :: "nat \<Rightarrow> js_string \<Rightarrow> bool" where
  "ends_with c s \<longleftrightarrow> s \<noteq> [] \<and> last s = c"

text \<open>
  A JavaScript number is NaN, an infinity or a finite double. A finite double is
  written as a real; a non-zero one stands for the double nearest to it, since the source
  never tells two finite non-zero numbers apart. What the source does observe of a number
  (whether it is NaN, whether it is zero, whether it is finite) is exact in the model:
  see \<open>number_value\<close> below for overflow and underflow.
\<close>

datatype js_number = NaN | Num real | PosInfinity | NegInfinity

fun isNaN :: "js_number \<Rightarrow> bool" where
  "isNaN NaN = True"
| "isNaN _ = False"

fun negate :: "js_number \<Rightarrow> js_number" where
  "negate NaN = NaN"
| "negate (Num x) = Num (- x)"
| "negate PosInfinity = NegInfinity"
| "negate NegInfinity = PosInfinity"

text \<open>A number is falsy when it is NaN or zero.\<close>

fun truthy_number :: "js_number \<Rightarrow> bool" where
  "truthy_number NaN = False"
| "truthy_number (Num x) = (x \<noteq> 0)"
| "truthy_number _ = True"

subsection \<open>The built-in parseFloat\<close>

definition is_digit :: "nat \<Rightarrow> bool" where
  "is_digit c \<longleftrightarrow> 0x30 \<le> c \<and> c \<le> 0x39"

definition digits_value :: "js_string \<Rightarrow> real" where
  "digits_value ds = foldl (\<lambda>a c. 10 * a + real (c - 0x30)) 0 ds"

definition fraction_value :: "js_string \<Rightarrow> real" where
  "fraction_value ds = foldr (\<lambda>c a. (real (c - 0x30) + a) / 10) ds 0"

definition exp_digits :: "js_string \<Rightarrow> int" where
  "exp_digits r = foldl (\<lambda>a c. 10 * a + int (c - 0x30)) 0 (takeWhile is_digit r)"

text \<open>An exponent part is \<^verbatim>\<open>e\<close> or \<^verbatim>\<open>E\<close>, an optional sign and at least one digit.\<close>

definition exponent_part :: "js_string \<Rightarrow> int" where
  "exponent_part r =
     (case r of
        [] \<Rightarrow> 0
      | c # r1 \<Rightarrow>
          if c = 0x65 \<or> c = 0x45 then
            (case r1 of
               [] \<Rightarrow> 0
             | s # r2 \<Rightarrow>
                 if s = 0x2B then exp_digits r2
                 else if s = 0x2D then - exp_digits r2
                 else exp_digits r1)
          else 0)"

definition scale10 :: "real \<Rightarrow> int \<Rightarrow> real" where
  "scale10 m e = (if 0 \<le> e then m * 10 ^ nat e else m / 10 ^ nat (- e))"

text \<open>
  The number for the mathematical value of a literal, rounded to the nearest double with
  ties to even: from 2^1024 - 2^970 on (half way between the largest double and 2^1024)
  the result is an infinity, and up to 2^(-1075) (half way between zero and the smallest
  double) it is zero.
\<close>

definition number_value :: "real \<Rightarrow> js_number" where
  "number_value x =
     (if 2 ^ 1024 - 2 ^ 970 \<le> \<bar>x\<bar> then (if 0 < x then PosInfinity else NegInfinity)
      else if \<bar>x\<bar> \<le> 1 / 2 ^ 1075 then Num 0
      else Num x)"

text \<open>
  The longest prefix that is an unsigned decimal literal: \<^verbatim>\<open>Infinity\<close>, or digits with an
  optional fraction, or a dot followed by digits, each with an optional exponent. Without
  such a prefix the result is NaN.
\<close>

definition str_unsigned_decimal :: "js_string \<Rightarrow> js_number" where
  "str_unsigned_decimal r =
     (if take 8 r = str ''Infinity'' then PosInfinity
      else
        let ip = takeWhile is_digit r;
            r1 = dropWhile is_digit r;
            has_dot = (r1 \<noteq> [] \<and> hd r1 = 0x2E);
            fp = (if has_dot then takeWhile is_digit (tl r1) else []);
            r2 = (if has_dot then dropWhile is_digit (tl r1) else r1)
        in if ip = [] \<and> fp = [] then NaN
           else number_value
                  (scale10 (digits_value ip + fraction_value fp) (exponent_part r2)))"

definition parseFloat :: "js_string \<Rightarrow> js_number" where
  "parseFloat s =
     (case dropWhile is_ws s of
        [] \<Rightarrow> NaN
      | c # r \<Rightarrow>
          if c = 0x2D then negate (str_unsigned_decimal r)
          else if c = 0x2B then str_unsigned_decimal r
          else str_unsigned_decimal (c # r))"

section \<open>parsingUtils.js: parseComplexNumbers\<close>

subsection \<open>The regular expression\<close>

text \<open>
  The source matches every part against
  \<^verbatim>\<open>/^(-?[0-9\.]+)?([+-]?[0-9\.]+j)?$/\<close>.
  A backtracking matcher tries the alternatives of a pattern in a fixed order (a greedy
  quantifier takes as much as it can first) and answers with the first complete match.
  Each piece of the pattern is modelled as the list of its possible matches at the start
  of a string, in that order, each with the rest of the string.
\<close>

text \<open>The character class \<^verbatim>\<open>[0-9\.]\<close>.\<close>

definition in_class :: "nat \<Rightarrow> bool" where
  "in_class c \<longleftrightarrow> is_digit c \<or> c = 0x2E"

text \<open>\<^verbatim>\<open>[0-9\.]+\<close>: every non-empty prefix of the longest run, the longest first.\<close>

definition class_plus :: "js_string \<Rightarrow> (js_string \<times> js_string) list" where
  "class_plus r =
     map (\<lambda>k. (take k r, drop k r)) (rev [1 ..< Suc (length (takeWhile in_class r))])"

text \<open>\<^verbatim>\<open>[...]?\<close> on one character: with it first, then without.\<close>

definition opt_char :: "(nat \<Rightarrow> bool) \<Rightarrow> js_string \<Rightarrow> (js_string \<times> js_string) list" where
  "opt_char P r =
     (case r of
        [] \<Rightarrow> [([], [])]
      | c # cs \<Rightarrow> if P c then [([c], cs), ([], r)] else [([], r)])"

definition lit_j :: "js_string \<Rightarrow> js_string list" where
  "lit_j r = (case r of [] \<Rightarrow> [] | c # cs \<Rightarrow> if c = 0x6A then [cs] else [])"

text \<open>The first group, \<^verbatim>\<open>-?[0-9\.]+\<close>, and the second, \<^verbatim>\<open>[+-]?[0-9\.]+j\<close>.\<close>

definition group1 :: "js_string \<Rightarrow> (js_string \<times> js_string) list" where
  "group1 r =
     concat (map (\<lambda>(s, r1). map (\<lambda>(d, r2). (s @ d, r2)) (class_plus r1))
                 (opt_char (\<lambda>c. c = 0x2D) r))"

definition group2 :: "js_string \<Rightarrow> (js_string \<times> js_string) list" where
  "group2 r =
     concat (map (\<lambda>(s, r1).
               concat (map (\<lambda>(d, r2). map (\<lambda>r3. (s @ d @ [0x6A], r3)) (lit_j r2))
                           (class_plus r1)))
                 (opt_char (\<lambda>c. c = 0x2B \<or> c = 0x2D) r))"

text \<open>\<^verbatim>\<open>(...)?\<close>: the group's matches first, then the empty match with no capture.\<close>

definition optional_group ::
  "(js_string \<Rightarrow> (js_string \<times> js_string) list) \<Rightarrow> js_string
     \<Rightarrow> (js_string option \<times> js_string) list" where
  "optional_group g r = map (\<lambda>(m, r'). (Some m, r')) (g r) @ [(None, r)]"

text \<open>All complete matches (the \<^verbatim>\<open>$\<close> wants the rest to be empty), the preferred one first.\<close>

definition all_matches :: "js_string \<Rightarrow> (js_string option \<times> js_string option) list" where
  "all_matches part =
     concat (map (\<lambda>(m1, r1).
               concat (map (\<lambda>(m2, r2). if r2 = [] then [(m1, m2)] else [])
                           (optional_group group2 r1)))
                 (optional_group group1 part))"

text \<open>\<^verbatim>\<open>part.match(...)\<close>: \<open>None\<close> is JavaScript's \<^verbatim>\<open>null\<close>, the captures are \<^verbatim>\<open>match[1]\<close> and \<^verbatim>\<open>match[2]\<close>.\<close>

definition re_match :: "js_string \<Rightarrow> (js_string option \<times> js_string option) option" where
  "re_match part = (case all_matches part of [] \<Rightarrow> None | m # _ \<Rightarrow> Some m)"

subsection \<open>The parser\<close>

text \<open>
  The callback of \<^verbatim>\<open>parts.map\<close> returns the number NaN or an object
  \<^verbatim>\<open>{ real, imag }\<close>.
\<close>

datatype parsed = ParsedNaN | ParsedComplex js_number js_number

text \<open>A captured string is truthy when it is present and not empty.\<close>

fun truthy_capture :: "js_string option \<Rightarrow> bool" where
  "truthy_capture None = False"
| "truthy_capture (Some s) = (s \<noteq> [])"

definition imag_of :: "js_string \<Rightarrow> js_number" where
  "imag_of imagPart =
     (if imagPart = str ''j'' \<or> imagPart = str ''+j'' then Num 1
      else if imagPart = str ''-j'' then Num (- 1)
      else parseFloat (remove_first 0x6A imagPart))"

definition parse_part :: "js_string \<Rightarrow> parsed" where
  "parse_part part =
     (case re_match part of
        None \<Rightarrow> ParsedNaN
      | Some (realPart, imagPart) \<Rightarrow>
          if ends_with 0x2B part \<or> ends_with 0x2D part then ParsedNaN
          else
            let real0 = (if truthy_capture realPart then parseFloat (the realPart) else Num 0);
                imag0 = (if truthy_capture imagPart then imag_of (the imagPart) else Num 0)
            in if \<not> truthy_capture realPart \<and> truthy_capture imagPart
               then ParsedComplex (Num 0) imag0
               else ParsedComplex real0 imag0)"

text \<open>
  \<^verbatim>\<open>isNaN(c.real) || isNaN(c.imag)\<close>: on the number NaN both properties are
  \<^verbatim>\<open>undefined\<close>, and \<^verbatim>\<open>isNaN(undefined)\<close> is true.
\<close>

fun invalid_parsed :: "parsed \<Rightarrow> bool" where
  "invalid_parsed ParsedNaN = True"
| "invalid_parsed (ParsedComplex re im) = (isNaN re \<or> isNaN im)"

text \<open>The only error that \<open>parseComplexNumbers\<close> throws, and its message.\<close>

datatype parse_error = InvalidFormat

definition msg_invalid_complex :: js_string where
  "msg_invalid_complex =
     [0x5305, 0x542B, 0x65E0, 0x6548, 0x7684, 0x590D, 0x6570, 0x683C, 0x5F0F, 0x3002,
      0x8BF7, 0x4F7F, 0x7528, 0x20, 0x61, 0x2B, 0x62, 0x6A, 0x20, 0x7684, 0x5F62, 0x5F0F,
      0xFF0C, 0x4F8B, 0x5982, 0x3A, 0x20, 0x2D, 0x31, 0x2C, 0x20, 0x2D, 0x32, 0x2B, 0x33,
      0x6A, 0x2C, 0x20, 0x2D, 0x32, 0x2D, 0x33, 0x6A]"

definition error_message :: "parse_error \<Rightarrow> js_string" where
  "error_message e = (case e of InvalidFormat \<Rightarrow> msg_invalid_complex)"

definition parseComplexNumbers :: "js_string \<Rightarrow> parse_error + parsed list" where
  "parseComplexNumbers input =
     (if trim input = [] then Inr []
      else
        let parts = map trim (split_comma input);
            complexNumbers = map parse_part parts
        in if list_ex invalid_parsed complexNumbers then Inl InvalidFormat
           else Inr complexNumbers)"

section \<open>The input components\<close>

text \<open>
  The state of \<^verbatim>\<open>RootLocusInput\<close> is the two text fields and the error shown under
  them; \<^verbatim>\<open>FrequencyDomainInput\<close> has the gain field as well.
\<close>

record locus_input =
  zeros :: js_string
  poles :: js_string
  error :: "js_string option"

record frequency_input = locus_input +
  gain :: js_string

definition msg_need_pole :: js_string where
  "msg_need_pole =
     [0x5FC5, 0x987B, 0x81F3, 0x5C11, 0x8F93, 0x5165, 0x4E00, 0x4E2A, 0x6781, 0x70B9, 0x3002]"

definition msg_gain_invalid :: js_string where
  "msg_gain_invalid =
     [0x589E, 0x76CA, 0x20, 0x4B, 0x20, 0x5FC5, 0x987B, 0x662F, 0x6709, 0x6548, 0x7684,
      0x6570, 0x5B57, 0x3002]"

text \<open>
  \<^verbatim>\<open>handleAnalyze\<close> of \<^verbatim>\<open>RootLocusInput\<close>. The result is the new state and the
  arguments of the call of \<^verbatim>\<open>onAnalyze\<close>, if it is called; the flag says whether the
  component was given an \<^verbatim>\<open>onAnalyze\<close> property. An exception of the parser ends in
  the \<^verbatim>\<open>catch\<close> block, which shows its message.
\<close>

definition RootLocusInput_handleAnalyze ::
  "bool \<Rightarrow> locus_input \<Rightarrow> locus_input \<times> (parsed list \<times> parsed list) option" where
  "RootLocusInput_handleAnalyze onAnalyze s =
     (let s0 = s\<lparr>error := None\<rparr> in
      case parseComplexNumbers (zeros s0) of
        Inl e \<Rightarrow> (s0\<lparr>error := Some (error_message e)\<rparr>, None)
      | Inr parsedZeros \<Rightarrow>
          (case parseComplexNumbers (poles s0) of
             Inl e \<Rightarrow> (s0\<lparr>error := Some (error_message e)\<rparr>, None)
           | Inr parsedPoles \<Rightarrow>
               if length parsedPoles = 0 then (s0\<lparr>error := Some msg_need_pole\<rparr>, None)
               else if onAnalyze then (s0, Some (parsedZeros, parsedPoles))
               else (s0, None)))"

text \<open>
  \<^verbatim>\<open>handleAnalyze\<close> of \<^verbatim>\<open>FrequencyDomainInput\<close>: the gain is checked with
  \<^verbatim>\<open>parseFloat\<close>, and handed on as the string the user typed.
\<close>

definition FrequencyDomainInput_handleAnalyze ::
  "bool \<Rightarrow> frequency_input
     \<Rightarrow> frequency_input \<times> (parsed list \<times> parsed list \<times> js_string) option" where
  "FrequencyDomainInput_handleAnalyze onAnalyze s =
     (let s0 = s\<lparr>error := None\<rparr> in
      case parseComplexNumbers (zeros s0) of
        Inl e \<Rightarrow> (s0\<lparr>error := Some (error_message e)\<rparr>, None)
      | Inr parsedZeros \<Rightarrow>
          (case parseComplexNumbers (poles s0) of
             Inl e \<Rightarrow> (s0\<lparr>error := Some (error_message e)\<rparr>, None)
           | Inr parsedPoles \<Rightarrow>
               if length parsedPoles = 0 then (s0\<lparr>error := Some msg_need_pole\<rparr>, None)
               else
                 let parsedGain = parseFloat (gain s0) in
                 if isNaN parsedGain then (s0\<lparr>error := Some msg_gain_invalid\<rparr>, None)
                 else if onAnalyze then (s0, Some (parsedZeros, parsedPoles, gain s0))
                 else (s0, None)))"

section \<open>controlSystemUtils.js: the request of analyzeFrequencyDomainAPI\<close>

text \<open>\<^verbatim>\<open>a || b\<close> on numbers.\<close>

definition or_number :: "js_number \<Rightarrow> js_number \<Rightarrow> js_number" where
  "or_number a b = (if truthy_number a then a else b)"

text \<open>
  The object that \<^verbatim>\<open>analyzeFrequencyDomainAPI\<close> serialises into the body of its POST
  request: \<^verbatim>\<open>{ zeros, poles, gain: parseFloat(gain) || 1.0 }\<close>.
\<close>

record frequency_request =
  req_zeros :: "parsed list"
  req_poles :: "parsed list"
  req_gain :: js_number

definition analyzeFrequencyDomainAPI_body ::
  "parsed list \<Rightarrow> parsed list \<Rightarrow> js_string \<Rightarrow> frequency_request" where
  "analyzeFrequencyDomainAPI_body zs ps g =
     \<lparr>req_zeros = zs, req_poles = ps, req_gain = or_number (parseFloat g) (Num 1)\<rparr>"

text \<open>
  \<^verbatim>\<open>HomePage\<close> wires the two together: what \<^verbatim>\<open>handleAnalyze\<close> hands to
  \<^verbatim>\<open>onAnalyze\<close> goes to \<^verbatim>\<open>analyzeFrequencyDomainAPI\<close> unchanged.
\<close>

definition frequency_submit :: "frequency_input \<Rightarrow> frequency_request option" where
  "frequency_submit s =
     (case snd (FrequencyDomainInput_handleAnalyze True s) of
        None \<Rightarrow> None
      | Some (zs, ps, g) \<Rightarrow> Some (analyzeFrequencyDomainAPI_body zs ps g))"

section \<open>JavaScript values and rendered elements\<close>

text \<open>
  The responses of the back end reach the result components as parsed JSON. A value is
  modelled with the cases the components can tell apart; an object is the list of its
  properties (the first binding of a name counts).
\<close>

datatype js_value =
    JUndefined
  | JNull
  | JBool bool
  | JNum js_number
  | JStr js_string
  | JArr "js_value list"
  | JObj "(string \<times> js_value) list"

text \<open>
  What evaluating an expression of a component can throw: a TypeError (a property of
  \<^verbatim>\<open>undefined\<close> or \<^verbatim>\<open>null\<close> is read, or something that is not a function is
  called), or React's refusal to render an object as a child.
\<close>

datatype js_exception = TypeError | InvalidChild

definition and_then :: "('e + 'a) \<Rightarrow> ('a \<Rightarrow> 'e + 'b) \<Rightarrow> 'e + 'b" where
  "and_then m f = (case m of Inl e \<Rightarrow> Inl e | Inr a \<Rightarrow> f a)"


fun truthy :: "js_value \<Rightarrow> bool" where
  "truthy JUndefined = False"
| "truthy JNull = False"
| "truthy (JBool b) = b"
| "truthy (JNum n) = truthy_number n"
| "truthy (JStr s) = (s \<noteq> [])"
| "truthy (JArr xs) = True"
| "truthy (JObj kvs) = True"

text \<open>
  \<^verbatim>\<open>v.k\<close> for the property names the components read (none of them is a built-in
  property): a TypeError on \<^verbatim>\<open>undefined\<close> and \<^verbatim>\<open>null\<close>, the property's value on an
  object that has it, \<^verbatim>\<open>undefined\<close> otherwise.
\<close>

fun get_prop :: "js_value \<Rightarrow> string \<Rightarrow> js_exception + js_value" where
  "get_prop JUndefined k = Inl TypeError"
| "get_prop JNull k = Inl TypeError"
| "get_prop (JObj kvs) k = Inr (case map_of kvs k of None \<Rightarrow> JUndefined | Some v \<Rightarrow> v)"
| "get_prop v k = Inr JUndefined"

text \<open>
  A rendered element: text, the text of a number, the text \<^verbatim>\<open>n.toFixed(d)\<close>, or an
  element with its tag, its class name and its children. White space between the
  children, styles and references are left out.
\<close>

datatype node =
    Txt js_string
  | NumTxt js_number
  | Fixed js_number nat
  | El string string "node list"

text \<open>\<^verbatim>\<open>v.toFixed(d)\<close>: only a number has the method.\<close>

definition toFixed :: "js_value \<Rightarrow> nat \<Rightarrow> js_exception + node" where
  "toFixed v d = (case v of JNum n \<Rightarrow> Inr (Fixed n d) | _ \<Rightarrow> Inl TypeError)"

text \<open>
  React renders a string or a number as text, nothing for \<^verbatim>\<open>undefined\<close>,
  \<^verbatim>\<open>null\<close>, a boolean and the empty string, the elements of an array in turn, and throws
  on any other object. It does so after the component function has returned, so the
  components below read their properties and call their methods first and build the
  children of expression values last.
\<close>

fun child :: "js_value \<Rightarrow> js_exception + node list"
  and children :: "js_value list \<Rightarrow> js_exception + node list" where
  "child JUndefined = Inr []"
| "child JNull = Inr []"
| "child (JBool b) = Inr []"
| "child (JNum n) = Inr [NumTxt n]"
| "child (JStr s) = Inr (if s = [] then [] else [Txt s])"
| "child (JArr xs) = children xs"
| "child (JObj kvs) = Inl InvalidChild"
| "children [] = Inr []"
| "children (x # xs) =
     (case child x of
        Inl e \<Rightarrow> Inl e
      | Inr a \<Rightarrow> (case children xs of Inl e \<Rightarrow> Inl e | Inr b \<Rightarrow> Inr (a @ b)))"

section \<open>The texts of the result components\<close>

definition txt_fd_title :: js_string where
  "txt_fd_title =
     [0x9891, 0x57DF, 0x5206, 0x6790, 0x7ED3, 0x679C]"

definition txt_fd_placeholder :: js_string where
  "txt_fd_placeholder =
     [0x8F93, 0x5165, 0x96F6, 0x6781, 0x70B9, 0x540E, 0x70B9, 0x51FB, 0x201C, 0x7ED8,
      0x5236, 0x42, 0x6F, 0x64, 0x65, 0x56FE, 0x548C, 0x4E, 0x79, 0x71, 0x75, 0x69,
      0x73, 0x74, 0x56FE, 0x201D, 0x4EE5, 0x67E5, 0x770B, 0x7ED3, 0x679C, 0x3002]"

definition txt_key_metrics :: js_string where
  "txt_key_metrics =
     [0x5173, 0x952E, 0x6307, 0x6807]"

definition txt_gain_margin :: js_string where
  "txt_gain_margin =
     [0x589E, 0x76CA, 0x88D5, 0x5EA6, 0x20, 0x28, 0x47, 0x4D, 0x29, 0x3A]"

definition txt_phase_margin :: js_string where
  "txt_phase_margin =
     [0x76F8, 0x89D2, 0x88D5, 0x5EA6, 0x20, 0x28, 0x50, 0x4D, 0x29, 0x3A]"

definition txt_infinite :: js_string where
  "txt_infinite =
     [0x65E0, 0x7A77, 0x5927]"

definition txt_undefined :: js_string where
  "txt_undefined =
     [0x672A, 0x5B9A, 0x4E49]"

definition txt_nyquist_asymptote :: js_string where
  "txt_nyquist_asymptote =
     [0x5948, 0x594E, 0x65AF, 0x7279, 0x6E10, 0x8FD1, 0x7EBF, 0x20, 0x28, 0x78, 0x8F74,
      0x622A, 0x8DDD, 0x29, 0x3A]"

definition txt_inverse_title :: js_string where
  "txt_inverse_title =
     [0x53CD, 0x5411, 0x5206, 0x6790, 0x7ED3, 0x679C]"

definition txt_no_result :: js_string where
  "txt_no_result =
     [0x6682, 0x65E0, 0x7ED3, 0x679C]"

definition txt_damping_ratio :: js_string where
  "txt_damping_ratio =
     [0x963B, 0x5C3C, 0x6BD4, 0x20, 0x28, 0x3B6, 0x29, 0x3A]"

definition txt_natural_frequency :: js_string where
  "txt_natural_frequency =
     [0x65E0, 0x963B, 0x5C3C, 0x81EA, 0x632F, 0x9891, 0x7387, 0x20, 0x28, 0x3C9, 0x6E,
      0x29, 0x3A]"

definition txt_cannot_compute :: js_string where
  "txt_cannot_compute =
     [0x65E0, 0x6CD5, 0x8BA1, 0x7B97, 0x963B, 0x5C3C, 0x6BD4, 0x548C, 0x65E0, 0x963B,
      0x5C3C, 0x81EA, 0x632F, 0x9891, 0x7387, 0xFF0C, 0x8BF7, 0x68C0, 0x67E5, 0x8F93,
      0x5165, 0x3002]"




section \<open>FrequencyDomainResult.jsx\<close>

text \<open>
  One margin of the key metrics: \<^verbatim>\<open>v !== null ? `${v.toFixed(2)} unit` : absent\<close>.
\<close>

definition margin_text :: "js_value \<Rightarrow> js_string \<Rightarrow> js_string \<Rightarrow> js_exception + node list" where
  "margin_text v unit absent =
     (if v \<noteq> JNull then and_then (toFixed v 2) (\<lambda>f. Inr [f, Txt unit])
      else Inr [Txt absent])"

definition gain_margin_item :: "js_value \<Rightarrow> js_exception + node" where
  "gain_margin_item result =
     and_then (get_prop result ''stability_margins'') (\<lambda>sm.
     and_then (get_prop sm ''gain_margin_db'') (\<lambda>gm.
     and_then (margin_text gm (str '' dB'') txt_infinite) (\<lambda>t.
       Inr (El ''li'' '''' (El ''strong'' '''' [Txt txt_gain_margin] # t)))))"

definition phase_margin_item :: "js_value \<Rightarrow> js_exception + node" where
  "phase_margin_item result =
     and_then (get_prop result ''stability_margins'') (\<lambda>sm.
     and_then (get_prop sm ''phase_margin_deg'') (\<lambda>pm.
     and_then (margin_text pm (str '' deg'') txt_undefined) (\<lambda>t.
       Inr (El ''li'' '''' (El ''strong'' '''' [Txt txt_phase_margin] # t)))))"

text \<open>
  \<^verbatim>\<open>result.nyquist?.asymptote && result.nyquist.asymptote.type === 'vertical_line' && (<li>...</li>)\<close>
\<close>

definition asymptote_item :: "js_value \<Rightarrow> js_exception + node list" where
  "asymptote_item result =
     and_then (get_prop result ''nyquist'') (\<lambda>nyquist.
     and_then (if nyquist = JNull \<or> nyquist = JUndefined then Inr JUndefined
               else get_prop nyquist ''asymptote'') (\<lambda>asymptote.
       if \<not> truthy asymptote then child asymptote
       else
         and_then (get_prop asymptote ''type'') (\<lambda>ty.
           if ty \<noteq> JStr (str ''vertical_line'') then Inr []
           else
             and_then (get_prop asymptote ''value'') (\<lambda>v.
             and_then (toFixed v 4) (\<lambda>f.
               Inr [El ''li'' '''' [El ''strong'' '''' [Txt txt_nyquist_asymptote], f]])))))"

text \<open>What the component returns; the three empty \<^verbatim>\<open>div\<close>s receive the plots.\<close>

definition FrequencyDomainResult :: "js_value \<Rightarrow> js_exception + node" where
  "FrequencyDomainResult result =
     (if \<not> truthy result then
        Inr (El ''div'' ''result-card''
               [El ''h3'' '''' [Txt txt_fd_title], El ''p'' '''' [Txt txt_fd_placeholder]])
      else
        and_then (gain_margin_item result) (\<lambda>gm.
        and_then (phase_margin_item result) (\<lambda>pm.
        and_then (asymptote_item result) (\<lambda>asy.
          Inr (El ''div'' ''result-card''
                 [El ''h3'' '''' [Txt txt_fd_title],
                  El ''div'' ''metrics-summary''
                    [El ''h5'' '''' [Txt txt_key_metrics], El ''ul'' '''' (gm # pm # asy)],
                  El ''div'' '''' [], El ''div'' '''' [], El ''div'' '''' []])))))"

section \<open>InverseAnalysisResult.jsx\<close>

text \<open>\<^verbatim>\<open>v !== null && (<p><strong>label</strong> {v.toFixed(3)}</p>)\<close>\<close>

definition parameter_line :: "js_value \<Rightarrow> js_string \<Rightarrow> js_exception + node list" where
  "parameter_line v label =
     (if v \<noteq> JNull then
        and_then (toFixed v 3) (\<lambda>f.
          Inr [El ''p'' '''' [El ''strong'' '''' [Txt label], Txt (str '' ''), f]])
      else Inr [])"

definition InverseAnalysisResult :: "js_value \<Rightarrow> js_exception + node" where
  "InverseAnalysisResult result =
     (if \<not> truthy result then
        Inr (El ''div'' ''result-card''
               [El ''h3'' '''' [Txt txt_inverse_title], El ''p'' '''' [Txt txt_no_result]])
      else
        and_then (get_prop result ''message'') (\<lambda>msg.
        and_then (get_prop result ''damping_ratio'') (\<lambda>damping_ratio.
        and_then (parameter_line damping_ratio txt_damping_ratio) (\<lambda>damping_line.
        and_then (get_prop result ''natural_frequency'') (\<lambda>natural_frequency.
        and_then (parameter_line natural_frequency txt_natural_frequency) (\<lambda>frequency_line.
        and_then (if truthy msg
                  then and_then (child msg) (\<lambda>c. Inr [El ''p'' ''error-message'' c])
                  else child msg) (\<lambda>message_line.
          Inr (El ''div'' ''result-card''
                 ([El ''h3'' '''' [Txt txt_inverse_title]]
                  @ message_line @ damping_line @ frequency_line
                  @ (if damping_ratio = JNull \<and> natural_frequency = JNull \<and> \<not> truthy msg
                     then [El ''p'' '''' [Txt txt_cannot_compute]] else []))))))))))"

section \<open>RootLocusResult.jsx\<close>










section \<open>The request of plotRootLocusAPI\<close>


text \<open>
  A value as \<^verbatim>\<open>JSON.stringify\<close> writes it and the receiver reads it: NaN and the
  infinities become \<^verbatim>\<open>null\<close>, as does \<^verbatim>\<open>undefined\<close> in an array; a property whose
  value is \<^verbatim>\<open>undefined\<close> is left out.
\<close>

fun as_json :: "js_value \<Rightarrow> js_value"
  and as_json_list :: "js_value list \<Rightarrow> js_value list"
  and as_json_props :: "(string \<times> js_value) list \<Rightarrow> (string \<times> js_value) list"
  and as_json_prop :: "string \<times> js_value \<Rightarrow> (string \<times> js_value) list" where
  "as_json JUndefined = JNull"
| "as_json JNull = JNull"
| "as_json (JBool b) = JBool b"
| "as_json (JNum n) = (case n of Num x \<Rightarrow> JNum (Num x) | _ \<Rightarrow> JNull)"
| "as_json (JStr s) = JStr s"
| "as_json (JArr xs) = JArr (as_json_list xs)"
| "as_json (JObj kvs) = JObj (as_json_props kvs)"
| "as_json_list [] = []"
| "as_json_list (x # xs) = as_json x # as_json_list xs"
| "as_json_props [] = []"
| "as_json_props (kv # kvs) = as_json_prop kv @ as_json_props kvs"
| "as_json_prop (k, v) = (if v = JUndefined then [] else [(k, as_json v)])"


section \<open>The shapes of points in the payloads\<close>









section \<open>The analysis engine, from the specification\<close>

text \<open>
  The engine behind the endpoints (the Python back end) is not among the sources: only
  the front end that calls it is. The parts of it that the claims are about are modelled
  from the words of the specification, and what the specification leaves to numerical
  routines (root finding, the simulation of the step response, the solving of the
  second-order relations) is a parameter of the model.
\<close>

subsection \<open>Time-domain analysis: analyze\_tf\<close>

record transfer_function =
  numerator :: "real list"
  denominator :: "real list"

datatype stability_status = Stable | Marginal | Unstable

text \<open>
  Modelled from the spec: the stability classification of \<^verbatim>\<open>analyze_tf\<close>, which is
  missing from the sources. The specification gives three sentences: all roots with
  strictly negative real part, stable; any root with zero real part, marginal; any root
  with positive real part, unstable. It gives no order among them, so they are kept as
  what they are, a relation between the roots and the status.
\<close>

fun classified :: "complex list \<Rightarrow> stability_status \<Rightarrow> bool" where
  "classified ps Stable = list_all (\<lambda>p. Re p < 0) ps"
| "classified ps Marginal = list_ex (\<lambda>p. Re p = 0) ps"
| "classified ps Unstable = list_ex (\<lambda>p. 0 < Re p) ps"

text \<open>A simulated step response: the samples (time, output) and the final value.\<close>

record step_response =
  samples :: "(real \<times> real) list"
  final_value :: real

text \<open>
  Modelled from the spec: the settling time of \<^verbatim>\<open>analyze_tf\<close>, which is missing from
  the sources, as "the last time the response exits the band": the time of the last sample
  outside the tolerance band around the final value, and the time of the first sample
  when no sample is outside.
\<close>

definition outside_band :: "real \<Rightarrow> real \<Rightarrow> real \<Rightarrow> bool" where
  "outside_band tol yf y \<longleftrightarrow> tol * \<bar>yf\<bar> < \<bar>y - yf\<bar>"

fun last_outside :: "real \<Rightarrow> real \<Rightarrow> real \<Rightarrow> (real \<times> real) list \<Rightarrow> real" where
  "last_outside tol yf acc [] = acc"
| "last_outside tol yf acc ((t, y) # rest) =
     last_outside tol yf (if outside_band tol yf y then t else acc) rest"

definition settling_time :: "real \<Rightarrow> step_response \<Rightarrow> real" where
  "settling_time tol r =
     last_outside tol (final_value r)
       (case samples r of [] \<Rightarrow> 0 | (t0, y0) # rest \<Rightarrow> t0) (samples r)"

record time_metrics =
  rise_time :: "real option"
  peak_time :: "real option"
  max_overshoot :: "real option"
  settling_time_2_percent :: real
  settling_time_5_percent :: real

record stability_report =
  status :: stability_status
  report_poles :: "complex list"

record analysis_response =
  metrics :: "time_metrics option"
  stability :: stability_report

text \<open>
  Modelled from the spec: the response of \<^verbatim>\<open>analyze_tf\<close>, which is missing from the
  sources. The status is one that the classification gives to the roots of the
  denominator; a stable system has metrics, with the two settling times taken from the
  simulated step response at the 2 and 5 percent bands; a marginal or unstable system has
  the metrics \<^verbatim>\<open>null\<close> and nothing of the response depends on the simulation. Root
  finding and simulation are the parameters \<open>roots\<close> and \<open>simulate\<close>; rise time, peak
  time and overshoot are left open.
\<close>

definition analyze_tf_returns ::
  "(real list \<Rightarrow> complex list) \<Rightarrow> (transfer_function \<Rightarrow> step_response)
     \<Rightarrow> transfer_function \<Rightarrow> analysis_response \<Rightarrow> bool" where
  "analyze_tf_returns roots simulate tf resp \<longleftrightarrow>
     classified (roots (denominator tf)) (status (stability resp))
     \<and> report_poles (stability resp) = roots (denominator tf)
     \<and> (case metrics resp of
          None \<Rightarrow> status (stability resp) \<noteq> Stable
        | Some m \<Rightarrow>
            status (stability resp) = Stable
            \<and> settling_time_2_percent m = settling_time (2 / 100) (simulate tf)
            \<and> settling_time_5_percent m = settling_time (5 / 100) (simulate tf))"

subsection \<open>Inverse analysis: inverse\_analyze\_tf\<close>

record inverse_request =
  given_rise_time :: "real option"
  given_peak_time :: "real option"
  given_max_overshoot :: "real option"
  given_settling_time :: "real option"

text \<open>
  What solving the second-order relations for the given metrics ends in: the metrics
  contradict each other, or a damping ratio and a natural frequency.
\<close>

datatype solution = Inconsistent | Solved real real

record inverse_response =
  damping_ratio :: "real option"
  natural_frequency :: "real option"
  message :: "js_string option"

text \<open>
  Modelled from the spec: \<^verbatim>\<open>inverse_analyze_tf\<close>, which is missing from the sources.
  If the metrics are inconsistent, or the damping ratio found is outside (0,1), or the
  natural frequency is not positive, the result is null with an explanatory message;
  nothing is raised. The solver and the wording of the message are parameters.
\<close>

definition inverse_analyze_tf ::
  "(inverse_request \<Rightarrow> solution) \<Rightarrow> (inverse_request \<Rightarrow> js_string)
     \<Rightarrow> inverse_request \<Rightarrow> inverse_response" where
  "inverse_analyze_tf solve explain req =
     (case solve req of
        Inconsistent \<Rightarrow>
          \<lparr>damping_ratio = None, natural_frequency = None, message = Some (explain req)\<rparr>
      | Solved zeta omega \<Rightarrow>
          if 0 < zeta \<and> zeta < 1 \<and> 0 < omega
          then \<lparr>damping_ratio = Some zeta, natural_frequency = Some omega, message = None\<rparr>
          else \<lparr>damping_ratio = None, natural_frequency = None,
                 message = Some (explain req)\<rparr>)"

text \<open>The response as the JSON value the front end receives.\<close>

definition number_or_null :: "real option \<Rightarrow> js_value" where
  "number_or_null v = (case v of None \<Rightarrow> JNull | Some x \<Rightarrow> JNum (Num x))"

definition inverse_response_json :: "inverse_response \<Rightarrow> js_value" where
  "inverse_response_json r =
     JObj [(''damping_ratio'', number_or_null (damping_ratio r)),
           (''natural_frequency'', number_or_null (natural_frequency r)),
           (''message'', (case message r of None \<Rightarrow> JNull | Some m \<Rightarrow> JStr m))]"

subsection \<open>Root locus: the asymptotes of plot\_root\_locus\<close>

record asymptote_set =
  centroid :: real
  angles :: "real list"

text \<open>The loop \<open>k = 0, ..., n - 1\<close> that collects the angles \<open>(2k+1) 180 / n\<close>, in degrees.\<close>

fun angles_from :: "nat \<Rightarrow> nat \<Rightarrow> nat \<Rightarrow> real list" where
  "angles_from n k 0 = []"
| "angles_from n k (Suc m) = (2 * real k + 1) * 180 / real n # angles_from n (Suc k) m"

text \<open>
  Modelled from the spec: the asymptotes of \<^verbatim>\<open>plot_root_locus\<close>, which is missing from
  the sources. There are asymptotes only when there are more poles than zeros; the
  centroid is a real value, the real part of the difference of the sums divided by the
  number of excess poles.
\<close>

definition asymptotes :: "complex list \<Rightarrow> complex list \<Rightarrow> asymptote_set option" where
  "asymptotes zs ps =
     (if length zs < length ps then
        let n = length ps - length zs in
        Some \<lparr>centroid = Re ((sum_list ps - sum_list zs) / of_nat n),
              angles = angles_from n 0 n\<rparr>
      else None)"

section \<open>Properties of the parser\<close>

text \<open>The definitions that evaluating the parser on a concrete string unfolds.\<close>

lemmas eval_defs = number_value_def str_def trim_def is_ws_def split_comma_def re_match_def all_matches_def optional_group_def group1_def group2_def class_plus_def opt_char_def lit_j_def in_class_def is_digit_def parse_part_def parseComplexNumbers_def ends_with_def imag_of_def parseFloat_def str_unsigned_decimal_def digits_value_def fraction_value_def exponent_part_def scale10_def exp_digits_def Let_def

subsection \<open>What the regular expression captures\<close>

lemma class_plus_shape:
  "(d, r) \<in> set (class_plus x) \<Longrightarrow> d \<noteq> [] \<and> (\<forall>c\<in>set d. in_class c) \<and> x = d @ r"
proof -
  assume h: "(d, r) \<in> set (class_plus x)"
  then obtain k where k: "1 \<le> k" "k \<le> length (takeWhile in_class x)" "d = take k x" "r = drop k x"
    by (auto simp: class_plus_def)
  have le: "length (takeWhile in_class x) \<le> length x" by (rule length_takeWhile_le)
  have "take k x = take k (takeWhile in_class x)"
    using k(2) by (metis takeWhile_dropWhile_id take_append append_Nil2 diff_is_0_eq' take_0)
  then have "set d \<subseteq> set (takeWhile in_class x)" using k(3) by (metis set_take_subset)
  then have "\<forall>c\<in>set d. in_class c" by (auto dest: set_takeWhileD)
  moreover have "d \<noteq> []" using k le by auto
  ultimately show ?thesis using k by simp
qed

lemma opt_char_shape:
  "(s, r) \<in> set (opt_char P x) \<Longrightarrow> x = s @ r \<and> (s = [] \<or> (\<exists>c. s = [c] \<and> P c))"
  by (auto simp: opt_char_def split: list.splits if_splits)

lemma group1_shape:
  assumes "(m, r) \<in> set (group1 x)"
  shows "\<exists>s d. m = s @ d \<and> d \<noteq> [] \<and> (\<forall>c\<in>set d. in_class c) \<and> x = m @ r"
proof -
  from assms obtain s r1 d where a: "(s, r1) \<in> set (opt_char (\<lambda>c. c = 0x2D) x)"
    "(d, r) \<in> set (class_plus r1)" "m = s @ d"
    by (auto simp: group1_def)
  from opt_char_shape[OF a(1)] class_plus_shape[OF a(2)] a(3) show ?thesis by auto
qed

lemma group2_shape:
  assumes "(m, r) \<in> set (group2 x)"
  shows "\<exists>s d. m = s @ d @ [0x6A] \<and> d \<noteq> [] \<and> (\<forall>c\<in>set d. in_class c)
           \<and> (s = [] \<or> s = [0x2B] \<or> s = [0x2D]) \<and> x = m @ r"
proof -
  from assms obtain s r1 d r2 where a: "(s, r1) \<in> set (opt_char (\<lambda>c. c = 0x2B \<or> c = 0x2D) x)"
    "(d, r2) \<in> set (class_plus r1)" "r \<in> set (lit_j r2)" "m = s @ d @ [0x6A]"
    by (auto simp: group2_def)
  from a(3) have "r2 = 0x6A # r" by (auto simp: lit_j_def split: list.splits if_splits)
  with opt_char_shape[OF a(1)] class_plus_shape[OF a(2)] a(4) show ?thesis by auto
qed

lemma all_matches_iff:
  "(m1, m2) \<in> set (all_matches part) \<longleftrightarrow>
     (\<exists>r1. (m1, r1) \<in> set (optional_group group1 part) \<and> (m2, []) \<in> set (optional_group group2 r1))"
  by (auto simp: all_matches_def split: if_splits)

lemma optional_group_iff:
  "(m, r) \<in> set (optional_group g x) \<longleftrightarrow>
     (m = None \<and> r = x) \<or> (\<exists>y. m = Some y \<and> (y, r) \<in> set (g x))"
  by (auto simp: optional_group_def)

lemma re_match_mem: "re_match part = Some m \<Longrightarrow> m \<in> set (all_matches part)"
  by (auto simp: re_match_def split: list.splits)

lemma not_in_class_j: "\<not> in_class 0x6A" "\<not> in_class 0x2B" "\<not> in_class 0x2D"
  by (simp_all add: in_class_def is_digit_def)

lemma imag_capture_shape:
  assumes "re_match part = Some (m1, Some g)"
  shows "\<exists>s d. g = s @ d @ [0x6A] \<and> d \<noteq> [] \<and> (\<forall>c\<in>set d. in_class c)"
proof -
  from re_match_mem[OF assms] obtain r1 where "(Some g, []) \<in> set (optional_group group2 r1)"
    by (auto simp: all_matches_iff)
  then have "(g, []) \<in> set (group2 r1)" by (simp add: optional_group_iff)
  from group2_shape[OF this] show ?thesis by blast
qed

lemma imag_capture_not_bare:
  assumes "re_match part = Some (m1, Some g)"
  shows "g \<noteq> str ''j'' \<and> g \<noteq> str ''+j'' \<and> g \<noteq> str ''-j''"
proof -
  from imag_capture_shape[OF assms] obtain s d where
    g: "g = s @ d @ [0x6A]" and d: "d \<noteq> []" "\<forall>c\<in>set d. in_class c" by blast
  from d have l: "in_class (last d)" by simp
  have "last (butlast g) = last d" using g d by (simp add: butlast_append)
  with l have "in_class (last (butlast g))" by simp
  moreover have "butlast g \<noteq> []" using g d by (simp add: butlast_append)
  ultimately show ?thesis using not_in_class_j by (auto simp: str_def)
qed

lemma no_match_bare:
  assumes t: "t = u @ [0x6A]" and u: "u = [] \<or> \<not> in_class (last u)"
  shows "re_match t = None"
proof -
  have "all_matches t = []"
  proof (rule ccontr)
    assume "all_matches t \<noteq> []"
    then obtain m1 m2 where "(m1, m2) \<in> set (all_matches t)"
      by (cases "all_matches t") auto
    then obtain r1 where r1: "(m1, r1) \<in> set (optional_group group1 t)"
      and r2: "(m2, []) \<in> set (optional_group group2 r1)"
      by (auto simp: all_matches_iff)
    show False
    proof (cases m2)
      case (Some g)
      with r2 have "(g, []) \<in> set (group2 r1)" by (simp add: optional_group_iff)
      from group2_shape[OF this] obtain s d where
        g: "g = s @ d @ [0x6A]" "d \<noteq> []" "\<forall>c\<in>set d. in_class c" "r1 = g" by auto
      from r1 obtain pre where "t = pre @ r1"
        by (auto simp: optional_group_iff dest: group1_shape)
      with g t have "u = pre @ s @ d" by simp
      with g u show False by auto
    next
      case None
      with r2 have e: "r1 = []" by (simp add: optional_group_iff)
      from t have "t \<noteq> []" by simp
      with r1 e obtain g where "(g, []) \<in> set (group1 t)"
        by (auto simp: optional_group_iff)
      from group1_shape[OF this] obtain s d where
        "t = s @ d" "d \<noteq> []" "\<forall>c\<in>set d. in_class c" by auto
      then have "in_class (last t)" by simp
      with t not_in_class_j show False by simp
    qed
  qed
  then show ?thesis by (simp add: re_match_def)
qed


lemma trim_Nil_iff: "trim s = [] \<longleftrightarrow> (\<forall>c\<in>set s. is_ws c)"
proof -
  have "trim s = [] \<longleftrightarrow> (\<forall>c\<in>set (dropWhile is_ws s). is_ws c)"
    by (simp add: trim_def dropWhile_eq_Nil_conv)
  also have "\<dots> \<longleftrightarrow> dropWhile is_ws s = []"
  proof
    assume a: "\<forall>c\<in>set (dropWhile is_ws s). is_ws c"
    show "dropWhile is_ws s = []"
    proof (rule ccontr)
      assume n: "dropWhile is_ws s \<noteq> []"
      then have "\<not> is_ws (hd (dropWhile is_ws s))" by (rule hd_dropWhile)
      moreover have "hd (dropWhile is_ws s) \<in> set (dropWhile is_ws s)" using n by simp
      ultimately show False using a by blast
    qed
  next
    assume "dropWhile is_ws s = []"
    then show "\<forall>c\<in>set (dropWhile is_ws s). is_ws c" by (auto dest: set_dropWhileD)
  qed
  also have "\<dots> \<longleftrightarrow> (\<forall>c\<in>set s. is_ws c)" by (simp add: dropWhile_eq_Nil_conv)
  finally show ?thesis .
qed

lemma split_from_set: "p \<in> set (split_from cur s) \<Longrightarrow> set p \<subseteq> set cur \<union> set s"
proof (induction s arbitrary: cur)
  case Nil
  then show ?case by auto
next
  case (Cons a s)
  show ?case
  proof (cases "a = 0x2C")
    case True
    with Cons.prems have "p = rev cur \<or> p \<in> set (split_from [] s)" by simp
    then show ?thesis using Cons.IH[of "[]"] by auto
  next
    case False
    with Cons.prems have "p \<in> set (split_from (a # cur) s)" by simp
    from Cons.IH[OF this] show ?thesis by auto
  qed
qed

lemma split_from_not_Nil: "split_from cur s \<noteq> []"
  by (induction s arbitrary: cur) auto

lemma split_comma_set: "p \<in> set (split_comma s) \<Longrightarrow> set p \<subseteq> set s"
  using split_from_set[of p "[]" s] by (simp add: split_comma_def)

lemma part_not_blank:
  assumes "t \<in> set (map trim (split_comma input))" and "t \<noteq> []"
  shows "trim input \<noteq> []"
proof -
  from assms obtain p where p: "p \<in> set (split_comma input)" "trim p \<noteq> []" by auto
  then obtain c where "c \<in> set p" "\<not> is_ws c" by (auto simp: trim_Nil_iff)
  with split_comma_set[OF p(1)] show ?thesis by (auto simp: trim_Nil_iff)
qed

lemma parseComplexNumbers_Nil_iff: "parseComplexNumbers p = Inr [] \<longleftrightarrow> trim p = []"
  by (auto simp: parseComplexNumbers_def Let_def split_comma_def split_from_not_Nil)

lemma invalid_part_throws:
  assumes "t \<in> set (map trim (split_comma input))" and "t \<noteq> []" and "parse_part t = ParsedNaN"
  shows "parseComplexNumbers input = Inl InvalidFormat"
proof -
  have "trim input \<noteq> []" by (rule part_not_blank[OF assms(1,2)])
  moreover have "list_ex invalid_parsed (map parse_part (map trim (split_comma input)))"
    using assms(1,3) by (force simp: list_ex_iff)
  ultimately show ?thesis by (simp add: parseComplexNumbers_def Let_def)
qed

text \<open>
  Claim C9. In \<open>parseComplexNumbers\<close> the branch that maps the bare imaginary tokens
  \<^verbatim>\<open>j\<close>, \<^verbatim>\<open>+j\<close> and \<^verbatim>\<open>-j\<close> to an imaginary part of 1 or -1 is never taken:
  whenever the regular expression matches, the second capture is none of the three,
  because the expression wants a character of \<^verbatim>\<open>[0-9\.]\<close> before the \<^verbatim>\<open>j\<close>. And
  whenever a part of the input, trimmed, ends in a \<^verbatim>\<open>j\<close> that no such character precedes
  (the bare tokens, and also \<^verbatim>\<open>1+j\<close>), the function throws the invalid-format error.
\<close>

theorem bare_j_token_rejected:
  "(re_match part = Some (realPart, Some imagPart) \<longrightarrow>
      imagPart \<noteq> str ''j'' \<and> imagPart \<noteq> str ''+j'' \<and> imagPart \<noteq> str ''-j'')
   \<and> (t \<in> set (map trim (split_comma input)) \<and> t = u @ str ''j''
        \<and> (u = [] \<or> \<not> in_class (last u))
      \<longrightarrow> parseComplexNumbers input = Inl InvalidFormat)"
proof -
  have A: "re_match part = Some (realPart, Some imagPart) \<longrightarrow>
      imagPart \<noteq> str ''j'' \<and> imagPart \<noteq> str ''+j'' \<and> imagPart \<noteq> str ''-j''"
    using imag_capture_not_bare[of part realPart imagPart] by blast
  have B: "t \<in> set (map trim (split_comma input)) \<and> t = u @ str ''j''
        \<and> (u = [] \<or> \<not> in_class (last u))
      \<longrightarrow> parseComplexNumbers input = Inl InvalidFormat"
  proof
    assume a: "t \<in> set (map trim (split_comma input)) \<and> t = u @ str ''j''
        \<and> (u = [] \<or> \<not> in_class (last u))"
    then have t: "t = u @ [0x6A]" by (simp add: str_def)
    from a have u: "u = [] \<or> \<not> in_class (last u)" by blast
    have "re_match t = None" by (rule no_match_bare[OF t u])
    then have p: "parse_part t = ParsedNaN" by (simp add: parse_part_def)
    have n: "t \<noteq> []" using t by simp
    from a have m: "t \<in> set (map trim (split_comma input))" by (rule conjunct1)
    show "parseComplexNumbers input = Inl InvalidFormat"
      by (rule invalid_part_throws[OF m n p])
  qed
  show ?thesis by (rule conjI[OF A B])
qed

theorem bare_j_token_rejected_witness:
  "str ''-j'' \<in> set (map trim (split_comma (str ''-1, -j'')))
   \<and> str ''-j'' = [0x2D] @ str ''j'' \<and> \<not> in_class (last [0x2D])
   \<and> parseComplexNumbers (str ''-1, -j'') = Inl InvalidFormat
   \<and> re_match (str ''2+3j'') = Some (Some (str ''2''), Some (str ''+3j''))
   \<and> str ''+3j'' \<noteq> str ''+j''"
proof -
  have 1: "str ''-j'' \<in> set (map trim (split_comma (str ''-1, -j'')))" by (simp add: eval_defs)
  have 2: "str ''-j'' = [0x2D] @ str ''j''" by (simp add: str_def)
  have 3: "\<not> in_class (last [0x2D])" by (simp add: in_class_def is_digit_def)
  have 4: "re_match (str ''2+3j'') = Some (Some (str ''2''), Some (str ''+3j''))" by (simp add: eval_defs)
  from bare_j_token_rejected[of "str ''2+3j''" "Some (str ''2'')" "str ''+3j''" "str ''-j''" "str ''-1, -j''" "[0x2D]"] 1 2 3 4
  show ?thesis by simp
qed

section \<open>Properties of the input components and of the request\<close>

text \<open>
  Claim C2. When the parsed pole list is empty, the input handler of the root-locus form
  and the input handler of the frequency-domain form both refuse to issue the request:
  \<^verbatim>\<open>onAnalyze\<close> is not called and an error message is shown. The message is the
  one asking for at least one pole exactly when the zeros parse; otherwise the parser's
  own message about the zeros is shown, and the request is refused all the same.
\<close>

theorem zero_poles_rejected:
  "(parseComplexNumbers (poles s) = Inr parsedPoles \<and> length parsedPoles = 0 \<longrightarrow>
      snd (RootLocusInput_handleAnalyze onAnalyze s) = None
      \<and> (error (fst (RootLocusInput_handleAnalyze onAnalyze s)) = Some msg_need_pole
          \<or> error (fst (RootLocusInput_handleAnalyze onAnalyze s)) = Some msg_invalid_complex)
      \<and> (\<exists>zs. parseComplexNumbers (zeros s) = Inr zs) =
          (error (fst (RootLocusInput_handleAnalyze onAnalyze s)) = Some msg_need_pole))
   \<and> (parseComplexNumbers (poles f) = Inr parsedPoles \<and> length parsedPoles = 0 \<longrightarrow>
      snd (FrequencyDomainInput_handleAnalyze onAnalyze f) = None
      \<and> (error (fst (FrequencyDomainInput_handleAnalyze onAnalyze f)) = Some msg_need_pole
          \<or> error (fst (FrequencyDomainInput_handleAnalyze onAnalyze f)) = Some msg_invalid_complex)
      \<and> (\<exists>zs. parseComplexNumbers (zeros f) = Inr zs) =
          (error (fst (FrequencyDomainInput_handleAnalyze onAnalyze f)) = Some msg_need_pole))"
proof -
  have ne: "msg_invalid_complex \<noteq> msg_need_pole"
    by (simp add: msg_invalid_complex_def msg_need_pole_def)
  show ?thesis
    using ne
    by (cases "parseComplexNumbers (zeros s)"; cases "parseComplexNumbers (zeros f)")
       (auto simp: RootLocusInput_handleAnalyze_def FrequencyDomainInput_handleAnalyze_def
          error_message_def Let_def split: parse_error.splits)
qed

theorem zero_poles_rejected_witness:
  "parseComplexNumbers (poles \<lparr>zeros = str ''-3'', poles = str '' '', error = None\<rparr>) = Inr []
   \<and> length ([] :: parsed list) = 0
   \<and> RootLocusInput_handleAnalyze True \<lparr>zeros = str ''-3'', poles = str '' '', error = None\<rparr>
       = (\<lparr>zeros = str ''-3'', poles = str '' '', error = Some msg_need_pole\<rparr>, None)
   \<and> parseComplexNumbers (poles \<lparr>zeros = str ''-3'', poles = str '' '', error = None, gain = str ''1.0''\<rparr>) = Inr []
   \<and> FrequencyDomainInput_handleAnalyze True
         \<lparr>zeros = str ''-3'', poles = str '' '', error = None, gain = str ''1.0''\<rparr>
       = (\<lparr>zeros = str ''-3'', poles = str '' '', error = Some msg_need_pole, gain = str ''1.0''\<rparr>, None)"
proof -
  have z: "parseComplexNumbers (str ''-3'') = Inr [ParsedComplex (Num (- 3)) (Num 0)]"
    by (simp add: eval_defs)
  have p: "parseComplexNumbers (str '' '') = Inr []"
    by (simp add: eval_defs)
  from zero_poles_rejected[of "\<lparr>zeros = str ''-3'', poles = str '' '', error = None\<rparr>" "[]" True
      "\<lparr>zeros = str ''-3'', poles = str '' '', error = None, gain = str ''1.0''\<rparr>"] z p
  show ?thesis
    by (simp add: RootLocusInput_handleAnalyze_def FrequencyDomainInput_handleAnalyze_def)
qed

text \<open>
  Claim C10. Whenever the gain string parses to NaN or to 0, the body that
  \<open>analyzeFrequencyDomainAPI\<close> sends carries the gain 1.0. A gain that parses to 0
  passes the check of the input component (only NaN is refused there), which hands the
  string on unchanged, so that the request leaves with the gain 1.0.
\<close>

theorem zero_gain_replaced:
  "(parseFloat g = NaN \<or> parseFloat g = Num 0 \<longrightarrow>
      req_gain (analyzeFrequencyDomainAPI_body zs ps g) = Num 1)
   \<and> (parseFloat (gain f) = Num 0 \<and> parseComplexNumbers (zeros f) = Inr zs'
        \<and> parseComplexNumbers (poles f) = Inr ps' \<and> ps' \<noteq> [] \<longrightarrow>
      FrequencyDomainInput_handleAnalyze True f = (f\<lparr>error := None\<rparr>, Some (zs', ps', gain f))
      \<and> frequency_submit f = Some \<lparr>req_zeros = zs', req_poles = ps', req_gain = Num 1\<rparr>)"
  by (auto simp: analyzeFrequencyDomainAPI_body_def or_number_def frequency_submit_def
        FrequencyDomainInput_handleAnalyze_def Let_def)

theorem zero_gain_replaced_witness:
  "parseFloat (str ''0'') = Num 0
   \<and> parseComplexNumbers (str '''') = Inr []
   \<and> parseComplexNumbers (str ''0, -1'') = Inr [ParsedComplex (Num 0) (Num 0), ParsedComplex (Num (- 1)) (Num 0)]
   \<and> FrequencyDomainInput_handleAnalyze True
        \<lparr>zeros = str '''', poles = str ''0, -1'', error = None, gain = str ''0''\<rparr>
      = (\<lparr>zeros = str '''', poles = str ''0, -1'', error = None, gain = str ''0''\<rparr>,
         Some ([], [ParsedComplex (Num 0) (Num 0), ParsedComplex (Num (- 1)) (Num 0)], str ''0''))
   \<and> frequency_submit \<lparr>zeros = str '''', poles = str ''0, -1'', error = None, gain = str ''0''\<rparr>
      = Some \<lparr>req_zeros = [], req_poles = [ParsedComplex (Num 0) (Num 0), ParsedComplex (Num (- 1)) (Num 0)],
              req_gain = Num 1\<rparr>"
proof -
  have g: "parseFloat (str ''0'') = Num 0" by (simp add: eval_defs)
  have z: "parseComplexNumbers (str '''') = Inr []" by (simp add: eval_defs)
  have p: "parseComplexNumbers (str ''0, -1'')
             = Inr [ParsedComplex (Num 0) (Num 0), ParsedComplex (Num (- 1)) (Num 0)]"
    by (simp add: eval_defs)
  from zero_gain_replaced[of "str ''0''" "[]" "[]"
      "\<lparr>zeros = str '''', poles = str ''0, -1'', error = None, gain = str ''0''\<rparr>"
      "[]" "[ParsedComplex (Num 0) (Num 0), ParsedComplex (Num (- 1)) (Num 0)]"] g z p
  show ?thesis by simp
qed

section \<open>Properties of the result components\<close>

text \<open>
  Claim C3. A gain margin of \<^verbatim>\<open>null\<close> is shown as the text for "infinite"
  (U+65E0 U+7A77 U+5927) and a phase margin of \<^verbatim>\<open>null\<close> as the text for "undefined"
  (U+672A U+5B9A U+4E49); neither raises an error, and with both \<^verbatim>\<open>null\<close> the
  component returns its card whenever the item of the Nyquist asymptote renders.
\<close>

theorem absent_margins_rendered:
  "truthy result \<and> get_prop result ''stability_margins'' = Inr sm
     \<and> get_prop sm ''gain_margin_db'' = Inr gm \<and> get_prop sm ''phase_margin_deg'' = Inr pm
   \<longrightarrow>
     (gm = JNull \<longrightarrow>
        gain_margin_item result
          = Inr (El ''li'' '''' [El ''strong'' '''' [Txt txt_gain_margin], Txt txt_infinite]))
   \<and> (pm = JNull \<longrightarrow>
        phase_margin_item result
          = Inr (El ''li'' '''' [El ''strong'' '''' [Txt txt_phase_margin], Txt txt_undefined]))
   \<and> (gm = JNull \<and> pm = JNull \<and> asymptote_item result = Inr asy \<longrightarrow>
        FrequencyDomainResult result
          = Inr (El ''div'' ''result-card''
                  [El ''h3'' '''' [Txt txt_fd_title],
                   El ''div'' ''metrics-summary''
                     [El ''h5'' '''' [Txt txt_key_metrics],
                      El ''ul'' ''''
                        (El ''li'' '''' [El ''strong'' '''' [Txt txt_gain_margin], Txt txt_infinite]
                         # El ''li'' '''' [El ''strong'' '''' [Txt txt_phase_margin], Txt txt_undefined]
                         # asy)],
                   El ''div'' '''' [], El ''div'' '''' [], El ''div'' '''' []]))"
  by (simp add: gain_margin_item_def phase_margin_item_def FrequencyDomainResult_def
        margin_text_def and_then_def)

theorem absent_margins_rendered_witness:
  "FrequencyDomainResult
     (JObj [(''stability_margins'',
               JObj [(''gain_margin_db'', JNull), (''phase_margin_deg'', JNull),
                     (''gain_crossover_freq'', JNull), (''phase_crossover_freq'', JNull)]),
            (''dc_gain'', JNum (Num 2))])
   = Inr (El ''div'' ''result-card''
            [El ''h3'' '''' [Txt txt_fd_title],
             El ''div'' ''metrics-summary''
               [El ''h5'' '''' [Txt txt_key_metrics],
                El ''ul'' ''''
                  [El ''li'' '''' [El ''strong'' '''' [Txt txt_gain_margin], Txt txt_infinite],
                   El ''li'' '''' [El ''strong'' '''' [Txt txt_phase_margin], Txt txt_undefined]]],
             El ''div'' '''' [], El ''div'' '''' [], El ''div'' '''' []])"
proof -
  let ?sm = "JObj [(''gain_margin_db'', JNull), (''phase_margin_deg'', JNull),
                     (''gain_crossover_freq'', JNull), (''phase_crossover_freq'', JNull)]"
  let ?r = "JObj [(''stability_margins'', ?sm), (''dc_gain'', JNum (Num 2))]"
  have a: "asymptote_item ?r = Inr []"
    by (simp add: asymptote_item_def and_then_def)
  from absent_margins_rendered[of ?r ?sm JNull JNull "[]"] a
  show ?thesis by simp
qed






















section \<open>Properties of the engine as the specification describes it\<close>

subsection \<open>Settling times\<close>

lemma outside_band_mono:
  "tolA \<le> tolB \<Longrightarrow> outside_band tolB yf y \<Longrightarrow> outside_band tolA yf y"
proof -
  assume a: "tolA \<le> tolB" and b: "outside_band tolB yf y"
  have "tolA * \<bar>yf\<bar> \<le> tolB * \<bar>yf\<bar>" using a by (simp add: mult_right_mono)
  with b show ?thesis by (simp add: outside_band_def)
qed

lemma last_outside_mono:
  assumes "tolA \<le> tolB" and "accB \<le> accA" and "sorted (map fst xs)"
    and "\<forall>t\<in>set (map fst xs). accA \<le> t"
  shows "last_outside tolB yf accB xs \<le> last_outside tolA yf accA xs"
  using assms(2-4)
proof (induction xs arbitrary: accA accB)
  case Nil
  then show ?case by simp
next
  case (Cons x xs)
  obtain t y where x: "x = (t, y)" by (cases x)
  let ?a = "if outside_band tolA yf y then t else accA"
  let ?b = "if outside_band tolB yf y then t else accB"
  have le: "accA \<le> t" using Cons.prems(3) x by simp
  have 1: "?b \<le> ?a"
    using Cons.prems(1) le outside_band_mono[OF assms(1), of yf y] by auto
  have 2: "sorted (map fst xs)" using Cons.prems(2) by simp
  have 3: "\<forall>u\<in>set (map fst xs). ?a \<le> u"
    using Cons.prems(2,3) x by auto
  from Cons.IH[OF 1 2 3] show ?case using x by simp
qed

lemma settling_time_mono:
  assumes "tolA \<le> tolB" and "sorted (map fst (samples r))"
  shows "settling_time tolB r \<le> settling_time tolA r"
proof (cases "samples r")
  case Nil
  then show ?thesis by (simp add: settling_time_def)
next
  case (Cons x xs)
  obtain t0 y0 where x: "x = (t0, y0)" by (cases x)
  have s: "sorted (map fst ((t0, y0) # xs))" using assms(2) Cons x by simp
  then have b: "\<forall>t\<in>set (map fst ((t0, y0) # xs)). t0 \<le> t" by auto
  have "last_outside tolB (final_value r) t0 ((t0, y0) # xs)
          \<le> last_outside tolA (final_value r) t0 ((t0, y0) # xs)"
    by (rule last_outside_mono[OF assms(1) order_refl s b])
  then show ?thesis using Cons x by (simp add: settling_time_def)
qed

lemma stable_only:
  assumes "\<forall>p\<in>set ps. Re p < 0" and "classified ps st"
  shows "st = Stable"
  using assms by (cases st) (auto simp: list_ex_iff)

text \<open>
  Claim C6. For a transfer function all of whose denominator roots have strictly negative
  real part, every response of \<^verbatim>\<open>analyze_tf\<close> carries metrics (they are not
  \<^verbatim>\<open>null\<close>), and the settling time at 2 percent is at least the settling time at 5
  percent. The sample times of the simulated step response are taken to be in ascending
  order.
\<close>

theorem stable_metrics_settling_order:
  "analyze_tf_returns roots simulate tf resp
     \<and> (\<forall>p\<in>set (roots (denominator tf)). Re p < 0)
     \<and> sorted (map fst (samples (simulate tf)))
   \<longrightarrow> (\<exists>m. metrics resp = Some m
            \<and> settling_time_5_percent m \<le> settling_time_2_percent m)"
proof
  assume a: "analyze_tf_returns roots simulate tf resp
     \<and> (\<forall>p\<in>set (roots (denominator tf)). Re p < 0)
     \<and> sorted (map fst (samples (simulate tf)))"
  then have c: "classified (roots (denominator tf)) (status (stability resp))"
    by (simp add: analyze_tf_returns_def)
  from a have n: "\<forall>p\<in>set (roots (denominator tf)). Re p < 0" by blast
  have st: "status (stability resp) = Stable" by (rule stable_only[OF n c])
  from a have s: "sorted (map fst (samples (simulate tf)))" by blast
  have mono: "settling_time (5 / 100) (simulate tf) \<le> settling_time (2 / 100) (simulate tf)"
    by (rule settling_time_mono[OF _ s]) simp
  from a st obtain m where m: "metrics resp = Some m"
    "settling_time_2_percent m = settling_time (2 / 100) (simulate tf)"
    "settling_time_5_percent m = settling_time (5 / 100) (simulate tf)"
    by (cases "metrics resp") (auto simp: analyze_tf_returns_def)
  with mono show "\<exists>m. metrics resp = Some m
            \<and> settling_time_5_percent m \<le> settling_time_2_percent m" by simp
qed


theorem stable_metrics_settling_order_witness:
  "analyze_tf_returns (\<lambda>den. [Complex (- 1) 0, Complex (- 2) 0])
     (\<lambda>tf. \<lparr>samples = [(0, 0), (1, 9 / 10), (2, 104 / 100), (3, 101 / 100), (4, 1)],
              final_value = 1\<rparr>)
     \<lparr>numerator = [2], denominator = [1, 3, 2]\<rparr>
     \<lparr>metrics = Some \<lparr>rise_time = None, peak_time = None, max_overshoot = None,
                        settling_time_2_percent = 2, settling_time_5_percent = 1\<rparr>,
      stability = \<lparr>status = Stable, report_poles = [Complex (- 1) 0, Complex (- 2) 0]\<rparr>\<rparr>
   \<and> Re (Complex (- 1) 0) < 0 \<and> Re (Complex (- 2) 0) < 0
   \<and> sorted (map fst [(0 :: real, 0 :: real), (1, 9 / 10), (2, 104 / 100), (3, 101 / 100), (4, 1)])
   \<and> (1 :: real) \<le> 2"
proof -
  let ?roots = "\<lambda>den :: real list. [Complex (- 1) 0, Complex (- 2) 0]"
  let ?sim = "\<lambda>tf :: transfer_function.
      \<lparr>samples = [(0, 0), (1, 9 / 10), (2, 104 / 100), (3, 101 / 100), (4, 1)],
       final_value = 1\<rparr>"
  let ?tf = "\<lparr>numerator = [2], denominator = [1, 3, 2]\<rparr>"
  let ?resp = "\<lparr>metrics = Some \<lparr>rise_time = None, peak_time = None, max_overshoot = None,
                        settling_time_2_percent = 2, settling_time_5_percent = 1\<rparr>,
      stability = \<lparr>status = Stable, report_poles = [Complex (- 1) 0, Complex (- 2) 0]\<rparr>\<rparr>"
  have r: "analyze_tf_returns ?roots ?sim ?tf ?resp"
    by (simp add: analyze_tf_returns_def settling_time_def outside_band_def)
  from stable_metrics_settling_order[of ?roots ?sim ?tf ?resp] r
  show ?thesis by simp
qed

subsection \<open>Inverse analysis\<close>

text \<open>
  Claim C4. When the supplied metrics are inconsistent, or solving gives a damping ratio
  outside (0,1) or a natural frequency that is not positive, \<^verbatim>\<open>inverse_analyze_tf\<close>
  returns a \<^verbatim>\<open>null\<close> damping ratio and a \<^verbatim>\<open>null\<close> natural frequency with the
  explanatory message, and raises nothing; the result component renders that response as
  its card with the message, without an exception. For any result whose two fields are
  \<^verbatim>\<open>null\<close> the component renders the message when there is one and the text that the
  parameters could not be computed when the message is empty.
\<close>

theorem inconsistent_metrics_null_result:
  "(explain req \<noteq> []
      \<and> (solve req = Inconsistent
          \<or> (\<exists>zeta omega. solve req = Solved zeta omega
                \<and> (zeta \<le> 0 \<or> 1 \<le> zeta \<or> omega \<le> 0)))
    \<longrightarrow> inverse_analyze_tf solve explain req
          = \<lparr>damping_ratio = None, natural_frequency = None, message = Some (explain req)\<rparr>
        \<and> InverseAnalysisResult (inverse_response_json (inverse_analyze_tf solve explain req))
          = Inr (El ''div'' ''result-card''
                   [El ''h3'' '''' [Txt txt_inverse_title],
                    El ''p'' ''error-message'' [Txt (explain req)]]))
   \<and> (truthy result \<and> get_prop result ''damping_ratio'' = Inr JNull
        \<and> get_prop result ''natural_frequency'' = Inr JNull
        \<and> get_prop result ''message'' = Inr (JStr msg)
    \<longrightarrow> InverseAnalysisResult result
          = Inr (El ''div'' ''result-card''
                   [El ''h3'' '''' [Txt txt_inverse_title],
                    if msg \<noteq> [] then El ''p'' ''error-message'' [Txt msg]
                    else El ''p'' '''' [Txt txt_cannot_compute]]))"
proof -
  have A: "explain req \<noteq> []
      \<and> (solve req = Inconsistent
          \<or> (\<exists>zeta omega. solve req = Solved zeta omega
                \<and> (zeta \<le> 0 \<or> 1 \<le> zeta \<or> omega \<le> 0)))
    \<longrightarrow> inverse_analyze_tf solve explain req
          = \<lparr>damping_ratio = None, natural_frequency = None, message = Some (explain req)\<rparr>
        \<and> InverseAnalysisResult (inverse_response_json (inverse_analyze_tf solve explain req))
          = Inr (El ''div'' ''result-card''
                   [El ''h3'' '''' [Txt txt_inverse_title],
                    El ''p'' ''error-message'' [Txt (explain req)]])"
  proof
    assume a: "explain req \<noteq> []
      \<and> (solve req = Inconsistent
          \<or> (\<exists>zeta omega. solve req = Solved zeta omega
                \<and> (zeta \<le> 0 \<or> 1 \<le> zeta \<or> omega \<le> 0)))"
    then have e: "inverse_analyze_tf solve explain req
          = \<lparr>damping_ratio = None, natural_frequency = None, message = Some (explain req)\<rparr>"
      by (auto simp: inverse_analyze_tf_def)
    from a have "InverseAnalysisResult (inverse_response_json
             \<lparr>damping_ratio = None, natural_frequency = None, message = Some (explain req)\<rparr>)
          = Inr (El ''div'' ''result-card''
                   [El ''h3'' '''' [Txt txt_inverse_title],
                    El ''p'' ''error-message'' [Txt (explain req)]])"
      by (simp add: InverseAnalysisResult_def inverse_response_json_def number_or_null_def
            and_then_def parameter_line_def)
    with e show "inverse_analyze_tf solve explain req
          = \<lparr>damping_ratio = None, natural_frequency = None, message = Some (explain req)\<rparr>
        \<and> InverseAnalysisResult (inverse_response_json (inverse_analyze_tf solve explain req))
          = Inr (El ''div'' ''result-card''
                   [El ''h3'' '''' [Txt txt_inverse_title],
                    El ''p'' ''error-message'' [Txt (explain req)]])"
      by simp
  qed
  have B: "truthy result \<and> get_prop result ''damping_ratio'' = Inr JNull
        \<and> get_prop result ''natural_frequency'' = Inr JNull
        \<and> get_prop result ''message'' = Inr (JStr msg)
    \<longrightarrow> InverseAnalysisResult result
          = Inr (El ''div'' ''result-card''
                   [El ''h3'' '''' [Txt txt_inverse_title],
                    if msg \<noteq> [] then El ''p'' ''error-message'' [Txt msg]
                    else El ''p'' '''' [Txt txt_cannot_compute]])"
    by (simp add: InverseAnalysisResult_def and_then_def parameter_line_def)
  show ?thesis using A B by blast
qed

theorem inconsistent_metrics_null_result_witness:
  "inverse_analyze_tf (\<lambda>req. Solved 2 3) (\<lambda>req. str ''no valid damping ratio'')
       \<lparr>given_rise_time = None, given_peak_time = Some 1, given_max_overshoot = Some 150,
        given_settling_time = None\<rparr>
     = \<lparr>damping_ratio = None, natural_frequency = None,
        message = Some (str ''no valid damping ratio'')\<rparr>
   \<and> InverseAnalysisResult
       (JObj [(''damping_ratio'', JNull), (''natural_frequency'', JNull),
              (''message'', JStr (str ''no valid damping ratio''))])
     = Inr (El ''div'' ''result-card''
              [El ''h3'' '''' [Txt txt_inverse_title],
               El ''p'' ''error-message'' [Txt (str ''no valid damping ratio'')]])"
proof -
  let ?solve = "\<lambda>req :: inverse_request. Solved 2 3"
  let ?explain = "\<lambda>req :: inverse_request. str ''no valid damping ratio''"
  let ?req = "\<lparr>given_rise_time = None, given_peak_time = Some 1, given_max_overshoot = Some 150,
        given_settling_time = None\<rparr>"
  let ?json = "JObj [(''damping_ratio'', JNull), (''natural_frequency'', JNull),
              (''message'', JStr (str ''no valid damping ratio''))]"
  have h: "?explain ?req \<noteq> []
      \<and> (?solve ?req = Inconsistent
          \<or> (\<exists>zeta omega. ?solve ?req = Solved zeta omega
                \<and> (zeta \<le> 0 \<or> 1 \<le> zeta \<or> omega \<le> 0)))"
    by (simp add: str_def)
  have j: "inverse_response_json
             \<lparr>damping_ratio = None, natural_frequency = None,
              message = Some (str ''no valid damping ratio'')\<rparr> = ?json"
    by (simp add: inverse_response_json_def number_or_null_def)
  from inconsistent_metrics_null_result[of ?explain ?req ?solve ?json
      "str ''no valid damping ratio''"]
  have "?explain ?req \<noteq> []
      \<and> (?solve ?req = Inconsistent
          \<or> (\<exists>zeta omega. ?solve ?req = Solved zeta omega
                \<and> (zeta \<le> 0 \<or> 1 \<le> zeta \<or> omega \<le> 0)))
    \<longrightarrow> inverse_analyze_tf ?solve ?explain ?req
          = \<lparr>damping_ratio = None, natural_frequency = None, message = Some (?explain ?req)\<rparr>
        \<and> InverseAnalysisResult (inverse_response_json (inverse_analyze_tf ?solve ?explain ?req))
          = Inr (El ''div'' ''result-card''
                   [El ''h3'' '''' [Txt txt_inverse_title],
                    El ''p'' ''error-message'' [Txt (?explain ?req)]])"
    by (rule conjunct1)
  from mp[OF this h]
  have e: "inverse_analyze_tf ?solve ?explain ?req
          = \<lparr>damping_ratio = None, natural_frequency = None, message = Some (?explain ?req)\<rparr>"
    and r: "InverseAnalysisResult (inverse_response_json (inverse_analyze_tf ?solve ?explain ?req))
          = Inr (El ''div'' ''result-card''
                   [El ''h3'' [] [Txt txt_inverse_title],
                    El ''p'' ''error-message'' [Txt (?explain ?req)]])"
    by blast+
  from r have "InverseAnalysisResult ?json
          = Inr (El ''div'' ''result-card''
                   [El ''h3'' [] [Txt txt_inverse_title],
                    El ''p'' ''error-message'' [Txt (?explain ?req)]])"
    unfolding e j .
  with e show ?thesis by simp
qed

subsection \<open>Asymptotes of the root locus\<close>

lemma length_angles_from: "length (angles_from n k m) = m"
  by (induction m arbitrary: k) simp_all

lemma nth_angles_from:
  "i < m \<Longrightarrow> angles_from n k m ! i = (2 * real (k + i) + 1) * 180 / real n"
proof (induction m arbitrary: k i)
  case 0
  then show ?case by simp
next
  case (Suc m)
  show ?case
  proof (cases i)
    case 0
    then show ?thesis by simp
  next
    case (Suc j)
    with Suc.prems have "j < m" by simp
    from Suc.IH[OF this, of "Suc k"] Suc show ?thesis by simp
  qed
qed

lemma real_quotient:
  "Im z = 0 \<Longrightarrow> complex_of_real (Re (z / of_nat n)) = z / of_nat n"
  by (simp add: complex_eq_iff)

text \<open>
  Claim C7. With more poles than zeros there is an asymptote set: its centroid is the real
  part of (sum of the poles - sum of the zeros) / (|P| - |Z|), which is that quotient
  itself when the imaginary parts cancel (as they do for poles and zeros in conjugate
  pairs), and it has exactly |P| - |Z| angles, the k-th being (2k+1) 180 / (|P| - |Z|)
  degrees for k from 0 to |P| - |Z| - 1. With at most as many poles as zeros no asymptotes
  are produced.
\<close>

theorem asymptotes_of_excess_poles:
  "(length zs < length ps \<longrightarrow>
      (\<exists>a. asymptotes zs ps = Some a
         \<and> centroid a = Re ((sum_list ps - sum_list zs) / of_nat (length ps - length zs))
         \<and> (Im (sum_list ps - sum_list zs) = 0 \<longrightarrow>
              complex_of_real (centroid a)
                = (sum_list ps - sum_list zs) / of_nat (length ps - length zs))
         \<and> length (angles a) = length ps - length zs
         \<and> (\<forall>k < length ps - length zs.
              angles a ! k = (2 * real k + 1) * 180 / real (length ps - length zs))))
   \<and> (length ps \<le> length zs \<longrightarrow> asymptotes zs ps = None)"
proof -
  define n where "n = length ps - length zs"
  define d where "d = sum_list ps - sum_list zs"
  define a where "a = \<lparr>centroid = Re (d / of_nat n), angles = angles_from n 0 n\<rparr>"
  have A: "length zs < length ps \<longrightarrow>
      (\<exists>a. asymptotes zs ps = Some a
         \<and> centroid a = Re (d / of_nat n)
         \<and> (Im d = 0 \<longrightarrow> complex_of_real (centroid a) = d / of_nat n)
         \<and> length (angles a) = n
         \<and> (\<forall>k < n. angles a ! k = (2 * real k + 1) * 180 / real n))"
  proof
    assume l: "length zs < length ps"
    have 1: "asymptotes zs ps = Some a"
      using l by (simp add: asymptotes_def Let_def a_def n_def d_def)
    have 2: "centroid a = Re (d / of_nat n)" by (simp add: a_def)
    have 3: "Im d = 0 \<longrightarrow> complex_of_real (centroid a) = d / of_nat n"
      using real_quotient[of d n] by (simp add: a_def)
    have 4: "length (angles a) = n" by (simp add: a_def length_angles_from)
    have 5: "\<forall>k < n. angles a ! k = (2 * real k + 1) * 180 / real n"
      by (simp add: a_def nth_angles_from)
    from 1 2 3 4 5 show "\<exists>a. asymptotes zs ps = Some a
         \<and> centroid a = Re (d / of_nat n)
         \<and> (Im d = 0 \<longrightarrow> complex_of_real (centroid a) = d / of_nat n)
         \<and> length (angles a) = n
         \<and> (\<forall>k < n. angles a ! k = (2 * real k + 1) * 180 / real n)"
      by blast
  qed
  have B: "length ps \<le> length zs \<longrightarrow> asymptotes zs ps = None"
    by (simp add: asymptotes_def)
  from A B show ?thesis unfolding n_def d_def by (rule conjI)
qed

theorem asymptotes_of_excess_poles_witness:
  "length [Complex (- 3) 0] < length [Complex 0 0, Complex (- 1) 1, Complex (- 1) (- 1)]
   \<and> asymptotes [Complex (- 3) 0] [Complex 0 0, Complex (- 1) 1, Complex (- 1) (- 1)]
       = Some \<lparr>centroid = 1 / 2, angles = [90, 270]\<rparr>
   \<and> asymptotes [Complex (- 3) 0, Complex (- 4) 0] [Complex 0 0, Complex (- 1) 0] = None"
proof -
  have a: "asymptotes [Complex (- 3) 0] [Complex 0 0, Complex (- 1) 1, Complex (- 1) (- 1)]
       = Some \<lparr>centroid = 1 / 2, angles = [90, 270]\<rparr>"
    by (simp add: asymptotes_def Let_def numeral_2_eq_2 complex_eq_iff Re_divide Im_divide)
  from asymptotes_of_excess_poles[of "[Complex (- 3) 0]"
      "[Complex 0 0, Complex (- 1) 1, Complex (- 1) (- 1)]"]
    asymptotes_of_excess_poles[of "[Complex (- 3) 0, Complex (- 4) 0]"
      "[Complex 0 0, Complex (- 1) 0]"] a
  show ?thesis by simp
qed

end
